theory Spec2Isabelle
  imports Main
begin

section \<open>JavaScript values\<close>

text \<open>
  The values that flow through \<^verbatim>\<open>waitFor.ts\<close>: what the callback returns or throws, what a
  deferred value settles with, what \<^verbatim>\<open>onTimeout\<close> maps. Numbers are the integral ones plus
  \<^verbatim>\<open>NaN\<close>; an object is its list of own data properties; a function is a callable object
  and may carry properties as well. An \<^verbatim>\<open>Error\<close> instance keeps its \<^verbatim>\<open>message\<close> and its
  \<^verbatim>\<open>stack\<close>, which is \<^verbatim>\<open>undefined\<close> (\<open>None\<close>) on a runtime without stack traces.
\<close>

record jserror =
  message :: string
  stack :: "string option"

datatype jsval =
    JUndefined
  | JNull
  | JBool bool
  | JNum int
  | JNaN
  | JBigInt int
  | JStr string
  | JSymbol string
  | JObject "(string \<times> jsval) list"
  | JFunction "(string \<times> jsval) list"
  | JErr jserror

text \<open>The \<^verbatim>\<open>typeof\<close> operator.\<close>

fun typeof :: "jsval \<Rightarrow> string" where
  "typeof JUndefined = ''undefined''"
| "typeof JNull = ''object''"
| "typeof (JBool b) = ''boolean''"
| "typeof (JNum n) = ''number''"
| "typeof JNaN = ''number''"
| "typeof (JBigInt n) = ''bigint''"
| "typeof (JStr s) = ''string''"
| "typeof (JSymbol d) = ''symbol''"
| "typeof (JObject ps) = ''object''"
| "typeof (JFunction ps) = ''function''"
| "typeof (JErr e) = ''object''"

text \<open>Truthiness, as tested by \<^verbatim>\<open>if (error)\<close> and \<^verbatim>\<open>if (lastError)\<close>.\<close>

fun truthy :: "jsval \<Rightarrow> bool" where
  "truthy JUndefined = False"
| "truthy JNull = False"
| "truthy (JBool b) = b"
| "truthy (JNum n) = (n \<noteq> 0)"
| "truthy JNaN = False"
| "truthy (JBigInt n) = (n \<noteq> 0)"
| "truthy (JStr s) = (s \<noteq> [])"
| "truthy (JSymbol d) = True"
| "truthy (JObject ps) = True"
| "truthy (JFunction ps) = True"
| "truthy (JErr e) = True"

text \<open>
  Reading a property of a value that is not \<^verbatim>\<open>null\<close> or \<^verbatim>\<open>undefined\<close>. A name the
  value does not carry reads as \<^verbatim>\<open>undefined\<close>.
\<close>

fun get_prop :: "jsval \<Rightarrow> string \<Rightarrow> jsval" where
  "get_prop (JObject ps) k = (case map_of ps k of Some v \<Rightarrow> v | None \<Rightarrow> JUndefined)"
| "get_prop (JFunction ps) k = (case map_of ps k of Some v \<Rightarrow> v | None \<Rightarrow> JUndefined)"
| "get_prop (JErr e) k =
     (if k = ''message'' then JStr (message e)
      else if k = ''stack'' then (case stack e of Some st \<Rightarrow> JStr st | None \<Rightarrow> JUndefined)
      else JUndefined)"
| "get_prop v k = JUndefined"

section \<open>Strings: \<^verbatim>\<open>String.prototype.replace\<close> with a string pattern\<close>

text \<open>
  \<open>find_first pat s\<close> splits \<open>s\<close> around the first occurrence of \<open>pat\<close>: the text before
  it and the text after it. The empty pattern occurs at position 0.
\<close>

fun find_first :: "string \<Rightarrow> string \<Rightarrow> (string \<times> string) option" where
  "find_first pat [] = (if pat = [] then Some ([], []) else None)"
| "find_first pat (c # cs) =
     (if take (length pat) (c # cs) = pat then Some ([], drop (length pat) (c # cs))
      else (case find_first pat cs of
              None \<Rightarrow> None
            | Some (pre, post) \<Rightarrow> Some (c # pre, post)))"

text \<open>
  The replacement text is a template: \<^verbatim>\<open>$$\<close> stands for a dollar sign, \<^verbatim>\<open>$&\<close> for the
  matched text, \<^verbatim>\<open>$`\<close> for the text before the match and \<^verbatim>\<open>$'\<close> for the text after it.
  A string pattern has no capture groups, so every other use of \<^verbatim>\<open>$\<close> stands for itself.
\<close>

fun expand_template :: "string \<Rightarrow> string \<Rightarrow> string \<Rightarrow> string \<Rightarrow> string" where
  "expand_template matched pre post [] = []"
| "expand_template matched pre post [c] = [c]"
| "expand_template matched pre post (c # d # rest) =
     (if c = CHR ''$'' then
        (if d = CHR ''$'' then CHR ''$'' # expand_template matched pre post rest
         else if d = CHR ''&'' then matched @ expand_template matched pre post rest
         else if d = CHR 0x60 then pre @ expand_template matched pre post rest
         else if d = CHR 0x27 then post @ expand_template matched pre post rest
         else c # expand_template matched pre post (d # rest))
      else c # expand_template matched pre post (d # rest))"

definition js_replace :: "string \<Rightarrow> string \<Rightarrow> string \<Rightarrow> string" where
  "js_replace s pat replacement =
     (case find_first pat s of
        None \<Rightarrow> s
      | Some (pre, post) \<Rightarrow> pre @ expand_template pat pre post replacement @ post)"

text \<open>Decimal digits of a natural number and of an integer, as \<^verbatim>\<open>String(n)\<close> writes them.\<close>

definition digit_char :: "nat \<Rightarrow> char" where
  "digit_char d = ''0123456789'' ! (d mod 10)"

function decimal :: "nat \<Rightarrow> string" where
  "decimal n = (if n < 10 then [digit_char n] else decimal (n div 10) @ [digit_char n])"
  by pat_completeness auto
termination
  by (relation "measure (\<lambda>n. n)") auto

declare decimal.simps [simp del]

definition decimal_int :: "int \<Rightarrow> string" where
  "decimal_int n = (if n < 0 then CHR ''-'' # decimal (nat (- n)) else decimal (nat n))"

section \<open>Errors and the runtime that creates them\<close>

text \<open>
  \<^verbatim>\<open>new Error(msg)\<close> asks the runtime for a stack trace. A runtime either has
  \<^verbatim>\<open>Error.prototype.stack\<close> or it has not; when it has, the text depends on the place in
  the source where the error is created and on its message. \<open>otherText\<close> is the string
  conversion of the values whose conversion the value alone does not fix: an object, a
  function or an error runs its own \<^verbatim>\<open>toString\<close> or \<^verbatim>\<open>valueOf\<close>, and \<open>None\<close> stands for a
  conversion that throws.
\<close>

datatype site = InWaitFor | InAbortedCheck | InAbortListener | InHandleTimeout

record runtime =
  hasStack :: bool
  stackText :: "site \<Rightarrow> string \<Rightarrow> string"
  otherText :: "jsval \<Rightarrow> string option"

definition new_Error :: "runtime \<Rightarrow> site \<Rightarrow> string \<Rightarrow> jserror" where
  "new_Error rt at msg =
     \<lparr>message = msg, stack = (if hasStack rt then Some (stackText rt at msg) else None)\<rparr>"

text \<open>
  \<^verbatim>\<open>copyStackTrace(target, source)\<close> mutates \<open>target\<close>; the model returns the new target.
\<close>

definition copyStackTrace :: "jserror \<Rightarrow> jserror \<Rightarrow> jserror" where
  "copyStackTrace target source =
     (case stack source of
        None \<Rightarrow> target
      | Some st \<Rightarrow> target\<lparr>stack := Some (js_replace st (message source) (message target))\<rparr>)"

text \<open>
  The conversion to a string that a template literal \<^verbatim>\<open>`${v}`\<close> applies. It throws a
  \<^verbatim>\<open>TypeError\<close> for a symbol (\<open>None\<close>). A number is written in decimal as long as it is a
  safe integer.
\<close>

fun template_text :: "runtime \<Rightarrow> jsval \<Rightarrow> string option" where
  "template_text rt JUndefined = Some ''undefined''"
| "template_text rt JNull = Some ''null''"
| "template_text rt (JBool b) = Some (if b then ''true'' else ''false'')"
| "template_text rt (JNum n) =
     (if \<bar>n\<bar> \<le> 9007199254740991 then Some (decimal_int n) else otherText rt (JNum n))"
| "template_text rt JNaN = Some ''NaN''"
| "template_text rt (JBigInt n) = Some (decimal_int n)"
| "template_text rt (JStr s) = Some s"
| "template_text rt (JSymbol d) = None"
| "template_text rt (JObject ps) = otherText rt (JObject ps)"
| "template_text rt (JFunction ps) = otherText rt (JFunction ps)"
| "template_text rt (JErr e) = otherText rt (JErr e)"

section \<open>The Poller\<close>

text \<open>
  The callback is impure: each invocation may do something else. Its behaviour is the
  function from the invocation number (counted from 0) to what that invocation does:
  it returns a value, or throws one, or returns a value whose \<^verbatim>\<open>then\<close> throws when it is
  called, or first aborts the controller of the signal that was passed in and then goes
  on in one of these ways.
\<close>

datatype check_result =
    Returns jsval
  | Throws jsval
  | ReturnsThrowingThen jsval jsval
  | AbortsThen jsval check_result

text \<open>
  What the host can deliver to the closures created by \<^verbatim>\<open>waitForImpl\<close>: the interval
  timer fires, the deadline timer fires, the signal is aborted with a reason, or the
  deferred value on which \<^verbatim>\<open>then\<close> was called settles and runs one of the two handlers.
\<close>

datatype event =
    IntervalTick
  | Deadline
  | Abort jsval
  | Fulfil jsval
  | Reject jsval

record abortSignal =
  aborted :: bool
  reason :: jsval

text \<open>
  \<^verbatim>\<open>WaitForOptions\<close> and \<^verbatim>\<open>WaitForImplOptions\<close>. An absent option is \<open>None\<close>. A fake
  clock is impure like the callback: its behaviour maps the number of the call of
  \<^verbatim>\<open>advanceTimersByTime\<close> to what is delivered while the call runs, and to what is
  delivered after it while its result is awaited. The clock and \<^verbatim>\<open>onTimeout\<close> are
  taken to return from every call.
\<close>

record waitForOptions =
  clock :: "(nat \<Rightarrow> event list \<times> event list) option"
  interval :: "nat option"
  onTimeout :: "(jsval \<Rightarrow> jsval) option"
  signal :: "abortSignal option"
  showOriginalStackTrace :: "bool option"
  timeout :: "nat option"

record waitForImplOptions = waitForOptions +
  stackTraceError :: jserror

text \<open>The defaults of the destructuring parameter of \<^verbatim>\<open>waitForImpl\<close>.\<close>

definition timeout_of :: "'a waitForOptions_scheme \<Rightarrow> nat" where
  "timeout_of opts = (case timeout opts of None \<Rightarrow> 1000 | Some t \<Rightarrow> t)"

definition showOriginalStackTrace_of :: "'a waitForOptions_scheme \<Rightarrow> bool" where
  "showOriginalStackTrace_of opts =
     (case showOriginalStackTrace opts of None \<Rightarrow> False | Some b \<Rightarrow> b)"

definition interval_of :: "'a waitForOptions_scheme \<Rightarrow> nat" where
  "interval_of opts = (case interval opts of None \<Rightarrow> 50 | Some i \<Rightarrow> i)"

definition onTimeout_of :: "'a waitForOptions_scheme \<Rightarrow> jsval \<Rightarrow> jsval" where
  "onTimeout_of opts = (case onTimeout opts of None \<Rightarrow> (\<lambda>error. error) | Some f \<Rightarrow> f)"

text \<open>
  The state of one invocation. \<open>lastError\<close>, \<open>finished\<close> and \<open>promiseStatus\<close> are the
  variables of the closure. \<open>overallTimeoutTimer\<close> and \<open>intervalId\<close> hold the delay of a
  timer that is scheduled and \<open>None\<close> once it is cleared. \<open>abortListener\<close> says that the
  listener is registered on the signal and \<open>signalAborted\<close> is the signal's own flag.
  \<open>outcome\<close> is the fate of the returned promise, fixed by the first call of
  \<^verbatim>\<open>resolve\<close> or \<^verbatim>\<open>reject\<close>; the promise ignores every later call. \<open>calls\<close> counts the
  invocations of the callback and \<open>failures\<close> lists the values stored in \<open>lastError\<close>,
  the latest first; the program has neither, they record its history.
\<close>

datatype promise_status = Idle | Pending | Resolved | Rejected

text \<open>
  A promise resolved with an object or a function whose \<^verbatim>\<open>then\<close> is callable is not
  fulfilled with that value: it adopts it, and is later fulfilled or rejected as that
  value's \<^verbatim>\<open>then\<close> decides, or never. \<open>ResolvedWith v\<close> is a promise fulfilled with \<open>v\<close>,
  \<open>RejectedWith e\<close> one rejected with \<open>e\<close>, \<open>Adopted v\<close> one that follows \<open>v\<close>.
\<close>

datatype settlement = ResolvedWith jsval | RejectedWith jsval | Adopted jsval

record poller =
  lastError :: jsval
  finished :: bool
  promiseStatus :: promise_status
  overallTimeoutTimer :: "nat option"
  intervalId :: "nat option"
  abortListener :: bool
  signalAborted :: bool
  outcome :: "settlement option"
  calls :: nat
  failures :: "jsval list"

definition adoptable :: "jsval \<Rightarrow> bool" where
  "adoptable v \<longleftrightarrow>
     (v \<noteq> JNull \<and> typeof v = ''object'' \<or> typeof v = ''function'') \<and>
     typeof (get_prop v ''then'') = ''function''"

text \<open>The two functions a promise hands to its executor: only the first call counts.\<close>

definition resolve :: "jsval \<Rightarrow> poller \<Rightarrow> poller" where
  "resolve v s =
     (case outcome s of
        None \<Rightarrow> s\<lparr>outcome := Some (if adoptable v then Adopted v else ResolvedWith v)\<rparr>
      | Some r \<Rightarrow> s)"

definition reject :: "jsval \<Rightarrow> poller \<Rightarrow> poller" where
  "reject e s = (case outcome s of None \<Rightarrow> s\<lparr>outcome := Some (RejectedWith e)\<rparr> | Some r \<Rightarrow> s)"

definition onDone :: "jsval \<Rightarrow> jsval \<Rightarrow> poller \<Rightarrow> poller" where
  "onDone error result s =
     (let s1 = s\<lparr>finished := True, overallTimeoutTimer := None, intervalId := None\<rparr>
      in if truthy error then reject error s1 else resolve result s1)"

text \<open>
  The listener registered on the signal. Its template literal throws for a reason that
  has no string conversion, and then the listener ends without calling \<^verbatim>\<open>onDone\<close>.
  \<open>dispatchAbort\<close> is the signal being aborted: it happens once, sets the signal's flag
  and runs the listener if it is registered. Without a signal in the options there is
  nothing to abort.
\<close>

definition abortError :: "runtime \<Rightarrow> site \<Rightarrow> string \<Rightarrow> jsval" where
  "abortError rt at reasonText = JErr (new_Error rt at (''Aborted: '' @ reasonText))"

definition onAbort :: "runtime \<Rightarrow> jsval \<Rightarrow> poller \<Rightarrow> poller" where
  "onAbort rt abortReason s =
     (case template_text rt abortReason of
        None \<Rightarrow> s
      | Some reasonText \<Rightarrow> onDone (abortError rt InAbortListener reasonText) JNull s)"

definition dispatchAbort :: "runtime \<Rightarrow> waitForImplOptions \<Rightarrow> jsval \<Rightarrow> poller \<Rightarrow> poller" where
  "dispatchAbort rt opts abortReason s =
     (if signal opts = None \<or> signalAborted s then s
      else if abortListener s then onAbort rt abortReason (s\<lparr>signalAborted := True\<rparr>)
      else s\<lparr>signalAborted := True\<rparr>)"

text \<open>
  The test of \<^verbatim>\<open>checkCallback\<close> for a deferred value. A deferred value whose \<^verbatim>\<open>then\<close>
  returns is taken to behave as a promise does: later at most one of the two handlers
  runs, once.
\<close>

definition is_thenable :: "jsval \<Rightarrow> bool" where
  "is_thenable result \<longleftrightarrow>
     result \<noteq> JNull \<and> typeof result = ''object'' \<and> typeof (get_prop result ''then'') = ''function''"

text \<open>
  \<open>callbackOutcome\<close> is the \<^verbatim>\<open>try\<close> block of \<^verbatim>\<open>checkCallback\<close> with its \<^verbatim>\<open>catch\<close>, for
  what the invocation does. A throw of \<^verbatim>\<open>then\<close> is caught like a throw of the callback,
  after \<open>promiseStatus\<close> has been set.
\<close>

fun callbackOutcome ::
  "runtime \<Rightarrow> waitForImplOptions \<Rightarrow> check_result \<Rightarrow> poller \<Rightarrow> poller" where
  "callbackOutcome rt opts (Returns result) s =
     (if is_thenable result then s\<lparr>promiseStatus := Pending\<rparr>
      else onDone JNull result s)"
| "callbackOutcome rt opts (Throws error) s =
     s\<lparr>lastError := error, failures := error # failures s\<rparr>"
| "callbackOutcome rt opts (ReturnsThrowingThen result error) s =
     (if is_thenable result
      then s\<lparr>promiseStatus := Pending, lastError := error, failures := error # failures s\<rparr>
      else onDone JNull result s)"
| "callbackOutcome rt opts (AbortsThen abortReason rest) s =
     callbackOutcome rt opts rest (dispatchAbort rt opts abortReason s)"

definition checkCallback ::
  "runtime \<Rightarrow> waitForImplOptions \<Rightarrow> (nat \<Rightarrow> check_result) \<Rightarrow> poller \<Rightarrow> poller" where
  "checkCallback rt opts callback s =
     (if promiseStatus s = Pending then s
      else callbackOutcome rt opts (callback (calls s)) (s\<lparr>calls := Suc (calls s)\<rparr>))"

text \<open>The two handlers passed to \<^verbatim>\<open>thenable.then\<close>.\<close>

definition onFulfilled :: "jsval \<Rightarrow> poller \<Rightarrow> poller" where
  "onFulfilled resolvedValue s = onDone JNull resolvedValue (s\<lparr>promiseStatus := Resolved\<rparr>)"

definition onRejected :: "jsval \<Rightarrow> poller \<Rightarrow> poller" where
  "onRejected rejectedValue s =
     s\<lparr>promiseStatus := Rejected, lastError := rejectedValue,
       failures := rejectedValue # failures s\<rparr>"

text \<open>
  \<^verbatim>\<open>handleTimeout\<close> in two parts: the error it builds, and the settlement with what
  \<^verbatim>\<open>onTimeout\<close> makes of it.
\<close>

definition timeoutError :: "runtime \<Rightarrow> waitForImplOptions \<Rightarrow> poller \<Rightarrow> jsval" where
  "timeoutError rt opts s =
     (if truthy (lastError s) then lastError s
      else
        (let error = new_Error rt InHandleTimeout ''Timed out in waitFor.''
         in JErr (if \<not> showOriginalStackTrace_of opts
                  then copyStackTrace error (stackTraceError opts)
                  else error)))"

definition handleTimeout :: "runtime \<Rightarrow> waitForImplOptions \<Rightarrow> poller \<Rightarrow> poller" where
  "handleTimeout rt opts s = onDone (onTimeout_of opts (timeoutError rt opts s)) JNull s"

text \<open>
  One delivery by the host. A cleared timer does not fire, and the deadline timer fires
  once. A handler of a deferred value runs only while one is awaited.
\<close>

fun step :: "runtime \<Rightarrow> (nat \<Rightarrow> check_result) \<Rightarrow> waitForImplOptions \<Rightarrow> poller \<Rightarrow> event \<Rightarrow> poller" where
  "step rt callback opts s IntervalTick =
     (if intervalId s = None then s else checkCallback rt opts callback s)"
| "step rt callback opts s Deadline =
     (if overallTimeoutTimer s = None then s
      else handleTimeout rt opts (s\<lparr>overallTimeoutTimer := None\<rparr>))"
| "step rt callback opts s (Abort abortReason) = dispatchAbort rt opts abortReason s"
| "step rt callback opts s (Fulfil v) =
     (if promiseStatus s = Pending then onFulfilled v s else s)"
| "step rt callback opts s (Reject e) =
     (if promiseStatus s = Pending then onRejected e s else s)"

definition run :: "runtime \<Rightarrow> (nat \<Rightarrow> check_result) \<Rightarrow> waitForImplOptions \<Rightarrow> poller \<Rightarrow> event list \<Rightarrow> poller" where
  "run rt callback opts s es = foldl (step rt callback opts) s es"

text \<open>
  The body of the promise executor. It is an \<^verbatim>\<open>async\<close> function: a throw inside it ends
  it and leaves the promise as it is. That happens when the signal is already aborted
  and its reason has no string conversion: the template literal throws before
  \<^verbatim>\<open>onDone\<close> is called, before the listener is registered and before the first check.
  \<open>beforeFirstCheck\<close> is the state in which the executor either reaches its first
  \<^verbatim>\<open>checkCallback()\<close> or is ended by that throw, and \<open>executor\<close> is the state after the
  first \<^verbatim>\<open>checkCallback()\<close>, which is made before a fake clock is advanced and before
  the host delivers anything.
\<close>

definition initial :: poller where
  "initial =
     \<lparr>lastError = JUndefined, finished = False, promiseStatus = Idle,
      overallTimeoutTimer = None, intervalId = None, abortListener = False,
      signalAborted = False, outcome = None, calls = 0, failures = []\<rparr>"

definition executor_throws :: "runtime \<Rightarrow> 'a waitForOptions_scheme \<Rightarrow> bool" where
  "executor_throws rt opts =
     (case signal opts of
        None \<Rightarrow> False
      | Some sg \<Rightarrow> aborted sg \<and> template_text rt (reason sg) = None)"

definition beforeFirstCheck :: "runtime \<Rightarrow> waitForImplOptions \<Rightarrow> poller" where
  "beforeFirstCheck rt opts =
     (let s0 = initial\<lparr>overallTimeoutTimer := Some (timeout_of opts),
                       intervalId := Some (interval_of opts)\<rparr>
      in case signal opts of
           None \<Rightarrow> s0
         | Some sg \<Rightarrow>
             (let sa = s0\<lparr>signalAborted := aborted sg\<rparr>
              in if aborted sg
                 then (case template_text rt (reason sg) of
                         None \<Rightarrow> sa
                       | Some reasonText \<Rightarrow>
                           (onDone (abortError rt InAbortedCheck reasonText) JNull sa)
                             \<lparr>abortListener := True\<rparr>)
                 else sa\<lparr>abortListener := True\<rparr>))"

definition executor :: "runtime \<Rightarrow> (nat \<Rightarrow> check_result) \<Rightarrow> waitForImplOptions \<Rightarrow> poller" where
  "executor rt callback opts =
     (if executor_throws rt opts then beforeFirstCheck rt opts
      else checkCallback rt opts callback (beforeFirstCheck rt opts))"

text \<open>
  The loop that pumps a fake clock, entered after the first check. Each round calls
  \<^verbatim>\<open>advanceTimersByTime\<close> and awaits its result. The loop may never end, so it runs on
  fuel and gives \<open>None\<close> when the fuel is used up while the loop would go on. \<open>k\<close>
  numbers the calls of \<^verbatim>\<open>advanceTimersByTime\<close>.
\<close>

fun clockLoop ::
  "runtime \<Rightarrow> (nat \<Rightarrow> check_result) \<Rightarrow> waitForImplOptions \<Rightarrow>
     (nat \<Rightarrow> event list \<times> event list) \<Rightarrow> nat \<Rightarrow> nat \<Rightarrow> poller \<Rightarrow> poller option" where
  "clockLoop rt callback opts clk 0 k s =
     (if \<not> finished s \<and> \<not> signalAborted s then None else Some s)"
| "clockLoop rt callback opts clk (Suc fuel) k s =
     (if \<not> finished s \<and> \<not> signalAborted s
      then clockLoop rt callback opts clk fuel (Suc k)
             (run rt callback opts (run rt callback opts s (fst (clk k))) (snd (clk k)))
      else Some s)"

text \<open>
  The state in which the promise is handed back to the caller. Without a fake clock
  that is the state after the first check. With one, the first round of the loop has
  called \<^verbatim>\<open>advanceTimersByTime\<close> by then, and what that call delivers while it runs has
  been delivered; the executor is suspended at its first \<^verbatim>\<open>await\<close>.
\<close>

definition returned :: "runtime \<Rightarrow> (nat \<Rightarrow> check_result) \<Rightarrow> waitForImplOptions \<Rightarrow> poller" where
  "returned rt callback opts =
     (let s = executor rt callback opts
      in if executor_throws rt opts then s
         else (case clock opts of
                 None \<Rightarrow> s
               | Some clk \<Rightarrow>
                   if \<not> finished s \<and> \<not> signalAborted s
                   then run rt callback opts s (fst (clk 0))
                   else s))"

text \<open>
  \<^verbatim>\<open>waitForImpl\<close>: the argument check, then the promise with its executor. The callback is
  a value for \<^verbatim>\<open>typeof\<close> and, when it is a function, a behaviour. The result is the
  thrown error or the state in which the promise is handed back; from there the host's
  timers (or the fake clock's loop) deliver events.
\<close>

datatype exn = TypeError string

definition waitForImpl ::
  "runtime \<Rightarrow> jsval \<Rightarrow> (nat \<Rightarrow> check_result) \<Rightarrow> waitForImplOptions \<Rightarrow> exn + poller" where
  "waitForImpl rt callback behaviour opts =
     (if typeof callback \<noteq> ''function''
      then Inl (TypeError ''Received `callback` arg must be a function'')
      else Inr (returned rt behaviour opts))"

text \<open>
  \<^verbatim>\<open>waitFor\<close> creates the error that remembers the caller's stack and passes it on
  with the options: \<open>impl_options\<close> is the object \<^verbatim>\<open>{stackTraceError, ...options}\<close>.
\<close>

definition impl_options :: "runtime \<Rightarrow> waitForOptions \<Rightarrow> waitForImplOptions" where
  "impl_options rt options =
     \<lparr>clock = clock options, interval = interval options, onTimeout = onTimeout options,
      signal = signal options, showOriginalStackTrace = showOriginalStackTrace options,
      timeout = timeout options,
      stackTraceError = new_Error rt InWaitFor ''STACK_TRACE_MESSAGE''\<rparr>"

definition waitFor ::
  "runtime \<Rightarrow> jsval \<Rightarrow> (nat \<Rightarrow> check_result) \<Rightarrow> waitForOptions \<Rightarrow> exn + poller" where
  "waitFor rt callback behaviour options =
     waitForImpl rt callback behaviour (impl_options rt options)"

text \<open>
  The whole executor with a fake clock: the first check, then the loop to its end.
\<close>

definition pumped ::
  "runtime \<Rightarrow> (nat \<Rightarrow> check_result) \<Rightarrow> waitForImplOptions \<Rightarrow> nat \<Rightarrow> poller option" where
  "pumped rt callback opts fuel =
     (if executor_throws rt opts then Some (executor rt callback opts)
      else (case clock opts of
              None \<Rightarrow> Some (executor rt callback opts)
            | Some clk \<Rightarrow> clockLoop rt callback opts clk fuel 0 (executor rt callback opts)))"

section \<open>Predicates used in the statements\<close>

text \<open>An event that runs a handler of the awaited deferred value.\<close>

fun is_settle_event :: "event \<Rightarrow> bool" where
  "is_settle_event (Fulfil v) = True"
| "is_settle_event (Reject e) = True"
| "is_settle_event ev = False"

text \<open>An \<^verbatim>\<open>Error\<close> with the message of the generic timeout error.\<close>

fun is_generic_timeout :: "jsval \<Rightarrow> bool" where
  "is_generic_timeout (JErr e) = (message e = ''Timed out in waitFor.'')"
| "is_generic_timeout v = False"

text \<open>The signal passed in has been aborted before the call.\<close>

definition pre_aborted :: "'a waitForOptions_scheme \<Rightarrow> bool" where
  "pre_aborted opts = (case signal opts of None \<Rightarrow> False | Some sg \<Rightarrow> aborted sg)"

text \<open>
  The invariant of the executor and of every delivery: the promise is settled exactly
  when \<open>finished\<close> is set, both timers are cleared from then on, and \<open>lastError\<close> is
  the latest recorded failure.
\<close>

definition poller_inv :: "poller \<Rightarrow> bool" where
  "poller_inv s \<longleftrightarrow>
     (finished s \<longleftrightarrow> outcome s \<noteq> None) \<and>
     (if finished s then overallTimeoutTimer s = None \<and> intervalId s = None
      else overallTimeoutTimer s \<noteq> None \<and> intervalId s \<noteq> None) \<and>
     lastError s = (case failures s of [] \<Rightarrow> JUndefined | e # rest \<Rightarrow> e)"

section \<open>Sample runtimes, options and callbacks\<close>

fun site_frame :: "site \<Rightarrow> string" where
  "site_frame InWaitFor = '' at waitFor (waitFor.ts:155)''"
| "site_frame InAbortedCheck = '' at executor (waitFor.ts:64)''"
| "site_frame InAbortListener = '' at listener (waitFor.ts:67)''"
| "site_frame InHandleTimeout = '' at handleTimeout (waitFor.ts:139)''"

definition node_runtime :: runtime where
  "node_runtime =
     \<lparr>hasStack = True,
      stackText = (\<lambda>at msg. ''Error: '' @ msg @ site_frame at),
      otherText = (\<lambda>v. Some ''[object Object]'')\<rparr>"

definition bare_runtime :: runtime where
  "bare_runtime =
     \<lparr>hasStack = False, stackText = (\<lambda>at msg. []),
      otherText = (\<lambda>v. Some ''[object Object]'')\<rparr>"

definition no_options :: waitForOptions where
  "no_options =
     \<lparr>clock = None, interval = None, onTimeout = None, signal = None,
      showOriginalStackTrace = None, timeout = None\<rparr>"

definition aborted_signal :: abortSignal where
  "aborted_signal = \<lparr>aborted = True, reason = JStr ''Bailing out''\<rparr>"

definition symbol_signal :: abortSignal where
  "symbol_signal = \<lparr>aborted = True, reason = JSymbol ''why''\<rparr>"

definition live_signal :: abortSignal where
  "live_signal = \<lparr>aborted = False, reason = JUndefined\<rparr>"

definition error_x :: jsval where
  "error_x = JErr \<lparr>message = ''x'', stack = None\<rparr>"

definition a_promise :: jsval where
  "a_promise = JObject [(''then'', JFunction [])]"


definition returns_undefined :: "nat \<Rightarrow> check_result" where
  "returns_undefined n = Returns JUndefined"


definition returns_promise :: "nat \<Rightarrow> check_result" where
  "returns_promise n = Returns a_promise"


definition always_throws_x :: "nat \<Rightarrow> check_result" where
  "always_throws_x n = Throws error_x"

definition always_throws_undefined :: "nat \<Rightarrow> check_result" where
  "always_throws_undefined n = Throws JUndefined"

definition always_throws_boom :: "nat \<Rightarrow> check_result" where
  "always_throws_boom n = Throws (JStr ''boom'')"

definition throws_x_then_undefined :: "nat \<Rightarrow> check_result" where
  "throws_x_then_undefined n = (if n = 0 then Throws error_x else Throws JUndefined)"


definition returns_null_onTimeout :: "jsval \<Rightarrow> jsval" where
  "returns_null_onTimeout error = JNull"


definition aborted_options :: waitForImplOptions where
  "aborted_options = impl_options node_runtime (no_options\<lparr>signal := Some aborted_signal\<rparr>)"

definition symbol_options :: waitForImplOptions where
  "symbol_options = impl_options node_runtime (no_options\<lparr>signal := Some symbol_signal\<rparr>)"

definition live_options :: waitForImplOptions where
  "live_options = impl_options node_runtime (no_options\<lparr>signal := Some live_signal\<rparr>)"


definition x_options :: waitForImplOptions where
  "x_options = impl_options bare_runtime (no_options\<lparr>timeout := Some 8, interval := Some 5\<rparr>)"

definition node_x_options :: waitForImplOptions where
  "node_x_options = impl_options node_runtime (no_options\<lparr>timeout := Some 8, interval := Some 5\<rparr>)"



definition tick_options :: waitForImplOptions where
  "tick_options = impl_options node_runtime (no_options\<lparr>interval := Some 1\<rparr>)"

definition null_options :: waitForImplOptions where
  "null_options =
     impl_options bare_runtime
       (no_options\<lparr>timeout := Some 8, interval := Some 5, onTimeout := Some returns_null_onTimeout\<rparr>)"

definition idle_state :: poller where
  "idle_state = initial\<lparr>overallTimeoutTimer := Some 1000, intervalId := Some 50\<rparr>"

section \<open>Basic facts\<close>

lemma onDone_outcome:
  "outcome (onDone error result s) =
     (case outcome s of
        None \<Rightarrow> Some (if truthy error then RejectedWith error
                      else if adoptable result then Adopted result else ResolvedWith result)
      | Some r \<Rightarrow> Some r)"
  by (simp add: onDone_def Let_def resolve_def reject_def split: option.splits)

lemma onDone_fields:
  "finished (onDone error result s) = True"
  "overallTimeoutTimer (onDone error result s) = None"
  "intervalId (onDone error result s) = None"
  "calls (onDone error result s) = calls s"
  "failures (onDone error result s) = failures s"
  "lastError (onDone error result s) = lastError s"
  "promiseStatus (onDone error result s) = promiseStatus s"
  "abortListener (onDone error result s) = abortListener s"
  "signalAborted (onDone error result s) = signalAborted s"
  by (simp_all add: onDone_def Let_def resolve_def reject_def split: option.splits)

lemmas onDone_simps = onDone_outcome onDone_fields

lemma onDone_inv:
  assumes "poller_inv s" "lastError s' = lastError s" "failures s' = failures s"
    "finished s' = finished s" "outcome s' = outcome s"
  shows "poller_inv (onDone error result s')"
  using assms by (simp add: poller_inv_def onDone_simps split: option.splits)

lemma is_thenable_adoptable: "is_thenable v \<Longrightarrow> adoptable v"
  by (simp add: is_thenable_def adoptable_def)

lemma not_thenable_simps:
  "\<not> is_thenable JUndefined" "\<not> is_thenable JNull" "\<not> is_thenable (JBool b)"
  "\<not> is_thenable (JNum n)" "\<not> is_thenable JNaN" "\<not> is_thenable (JBigInt n)"
  "\<not> is_thenable (JStr t)" "\<not> is_thenable (JSymbol d)" "\<not> is_thenable (JFunction ps)"
  "\<not> is_thenable (JErr e)"
  by (simp_all add: is_thenable_def)

lemma not_adoptable_simps:
  "\<not> adoptable JUndefined" "\<not> adoptable JNull" "\<not> adoptable (JBool b)"
  "\<not> adoptable (JNum n)" "\<not> adoptable JNaN" "\<not> adoptable (JBigInt n)"
  "\<not> adoptable (JStr t)" "\<not> adoptable (JSymbol d)" "\<not> adoptable (JErr e)"
  by (simp_all add: adoptable_def)

text \<open>The signal being aborted.\<close>

lemma dispatchAbort_cases:
  "dispatchAbort rt opts r s = s
   \<or> dispatchAbort rt opts r s = s\<lparr>signalAborted := True\<rparr>
   \<or> (\<exists>text. dispatchAbort rt opts r s =
         onDone (abortError rt InAbortListener text) JNull (s\<lparr>signalAborted := True\<rparr>))"
  by (auto simp: dispatchAbort_def onAbort_def split: option.splits)

lemma dispatchAbort_fields:
  "calls (dispatchAbort rt opts r s) = calls s"
  "failures (dispatchAbort rt opts r s) = failures s"
  "lastError (dispatchAbort rt opts r s) = lastError s"
  "promiseStatus (dispatchAbort rt opts r s) = promiseStatus s"
  "abortListener (dispatchAbort rt opts r s) = abortListener s"
  by (simp_all add: dispatchAbort_def onAbort_def onDone_simps split: option.splits)

lemma dispatchAbort_inv: "poller_inv s \<Longrightarrow> poller_inv (dispatchAbort rt opts r s)"
proof -
  assume inv: "poller_inv s"
  have a: "poller_inv (s\<lparr>signalAborted := True\<rparr>)"
    using inv by (simp add: poller_inv_def)
  have b: "poller_inv (onDone e JNull (s\<lparr>signalAborted := True\<rparr>))" for e
    using inv by (rule onDone_inv) simp_all
  show ?thesis
    using inv a b dispatchAbort_cases [of rt opts r s] by auto
qed

lemma dispatchAbort_outcome_settled:
  "outcome s = Some o1 \<Longrightarrow> outcome (dispatchAbort rt opts r s) = Some o1"
  by (simp add: dispatchAbort_def onAbort_def onDone_simps split: option.splits)

lemma dispatchAbort_interval_cleared:
  "intervalId s = None \<Longrightarrow> intervalId (dispatchAbort rt opts r s) = None"
  by (simp add: dispatchAbort_def onAbort_def onDone_simps split: option.splits)

lemma dispatchAbort_aborted:
  "signalAborted s \<Longrightarrow> dispatchAbort rt opts r s = s"
  by (simp add: dispatchAbort_def)

lemma dispatchAbort_no_signal:
  "signal opts = None \<Longrightarrow> dispatchAbort rt opts r s = s"
  by (simp add: dispatchAbort_def)

text \<open>One invocation of the callback.\<close>

lemma callbackOutcome_inv:
  "poller_inv s \<Longrightarrow> poller_inv (callbackOutcome rt opts res s)"
proof (induction res arbitrary: s)
  case (Returns v)
  have "poller_inv (s\<lparr>promiseStatus := Pending\<rparr>)"
    using Returns by (simp add: poller_inv_def)
  moreover have "poller_inv (onDone JNull v s)"
    using Returns by (rule onDone_inv) simp_all
  ultimately show ?case by simp
next
  case (Throws e)
  then show ?case by (simp add: poller_inv_def)
next
  case (ReturnsThrowingThen v e)
  have "poller_inv (s\<lparr>promiseStatus := Pending, lastError := e, failures := e # failures s\<rparr>)"
    using ReturnsThrowingThen by (simp add: poller_inv_def)
  moreover have "poller_inv (onDone JNull v s)"
    using ReturnsThrowingThen by (rule onDone_inv) simp_all
  ultimately show ?case by simp
next
  case (AbortsThen r rest)
  then show ?case by (simp add: dispatchAbort_inv)
qed

lemma callbackOutcome_outcome_settled:
  "outcome s = Some o1 \<Longrightarrow> outcome (callbackOutcome rt opts res s) = Some o1"
  by (induction res arbitrary: s) (simp_all add: onDone_simps dispatchAbort_outcome_settled)

lemma callbackOutcome_fields:
  "calls (callbackOutcome rt opts res s) = calls s"
  "abortListener (callbackOutcome rt opts res s) = abortListener s"
  by (induction res arbitrary: s) (simp_all add: onDone_simps dispatchAbort_fields)

lemma checkCallback_inv: "poller_inv s \<Longrightarrow> poller_inv (checkCallback rt opts cb s)"
proof -
  assume inv: "poller_inv s"
  then have "poller_inv (s\<lparr>calls := Suc (calls s)\<rparr>)"
    by (simp add: poller_inv_def)
  then show ?thesis
    using inv by (simp add: checkCallback_def callbackOutcome_inv)
qed

lemma checkCallback_outcome_settled:
  "outcome s = Some o1 \<Longrightarrow> outcome (checkCallback rt opts cb s) = Some o1"
  by (simp add: checkCallback_def callbackOutcome_outcome_settled)

lemma checkCallback_abortListener:
  "abortListener (checkCallback rt opts cb s) = abortListener s"
  by (simp add: checkCallback_def callbackOutcome_fields)

lemma checkCallback_calls:
  "promiseStatus s \<noteq> Pending \<Longrightarrow> calls (checkCallback rt opts cb s) = Suc (calls s)"
  by (simp add: checkCallback_def callbackOutcome_fields)


lemma checkCallback_pending:
  "promiseStatus s = Pending \<Longrightarrow> checkCallback rt opts cb s = s"
  by (simp add: checkCallback_def)

lemma checkCallback_returns:
  assumes "promiseStatus s \<noteq> Pending" and "cb (calls s) = Returns v"
  shows "checkCallback rt opts cb s =
           (if is_thenable v then s\<lparr>calls := Suc (calls s), promiseStatus := Pending\<rparr>
            else onDone JNull v (s\<lparr>calls := Suc (calls s)\<rparr>))"
  using assms by (simp add: checkCallback_def)


text \<open>Deliveries.\<close>

lemma step_inv: "poller_inv s \<Longrightarrow> poller_inv (step rt cb opts s ev)"
proof -
  assume inv: "poller_inv s"
  show ?thesis
  proof (cases ev)
    case IntervalTick
    then show ?thesis using inv by (simp add: checkCallback_inv)
  next
    case Deadline
    have "poller_inv (handleTimeout rt opts (s\<lparr>overallTimeoutTimer := None\<rparr>))"
      unfolding handleTimeout_def using inv by (rule onDone_inv) simp_all
    then show ?thesis using inv Deadline by simp
  next
    case (Abort r)
    then show ?thesis using inv by (simp add: dispatchAbort_inv)
  next
    case (Fulfil v)
    have "poller_inv (onFulfilled v s)"
      unfolding onFulfilled_def using inv by (rule onDone_inv) simp_all
    then show ?thesis using inv Fulfil by simp
  next
    case (Reject e)
    have "poller_inv (onRejected e s)"
      using inv by (simp add: onRejected_def poller_inv_def)
    then show ?thesis using inv Reject by simp
  qed
qed

lemma run_Nil: "run rt cb opts s [] = s"
  by (simp add: run_def)

lemma run_Cons: "run rt cb opts s (ev # es) = run rt cb opts (step rt cb opts s ev) es"
  by (simp add: run_def)

lemma run_append: "run rt cb opts s (es @ es') = run rt cb opts (run rt cb opts s es) es'"
  by (simp add: run_def)

lemma run_inv: "poller_inv s \<Longrightarrow> poller_inv (run rt cb opts s es)"
  by (induction es arbitrary: s) (simp_all add: run_Nil run_Cons step_inv)

lemma step_outcome_settled:
  "outcome s = Some o1 \<Longrightarrow> outcome (step rt cb opts s ev) = Some o1"
  by (cases ev)
     (simp_all add: checkCallback_outcome_settled handleTimeout_def dispatchAbort_outcome_settled
        onFulfilled_def onRejected_def onDone_simps)

lemma run_outcome_settled:
  "outcome s = Some o1 \<Longrightarrow> outcome (run rt cb opts s es) = Some o1"
  by (induction es arbitrary: s) (simp_all add: run_Nil run_Cons step_outcome_settled)

lemma step_interval_cleared:
  "intervalId s = None \<Longrightarrow>
     intervalId (step rt cb opts s ev) = None \<and> calls (step rt cb opts s ev) = calls s"
  by (cases ev)
     (simp_all add: handleTimeout_def dispatchAbort_interval_cleared dispatchAbort_fields
        onFulfilled_def onRejected_def onDone_simps)

lemma run_interval_cleared:
  "intervalId s = None \<Longrightarrow>
     intervalId (run rt cb opts s es) = None \<and> calls (run rt cb opts s es) = calls s"
  by (induction es arbitrary: s) (simp_all add: run_Nil run_Cons step_interval_cleared)

lemma step_abortListener: "abortListener (step rt cb opts s ev) = abortListener s"
  by (cases ev)
     (simp_all add: checkCallback_abortListener handleTimeout_def dispatchAbort_fields
        onFulfilled_def onRejected_def onDone_simps)

lemma run_abortListener: "abortListener (run rt cb opts s es) = abortListener s"
  by (induction es arbitrary: s) (simp_all add: run_Nil run_Cons step_abortListener)



lemma step_pending:
  assumes "promiseStatus s = Pending" and "\<not> is_settle_event ev"
  shows "promiseStatus (step rt cb opts s ev) = Pending \<and> calls (step rt cb opts s ev) = calls s"
  using assms
  by (cases ev)
     (simp_all add: checkCallback_pending handleTimeout_def dispatchAbort_fields onDone_simps)

lemma run_pending:
  assumes "promiseStatus s = Pending" and "\<forall>ev\<in>set es. \<not> is_settle_event ev"
  shows "promiseStatus (run rt cb opts s es) = Pending \<and> calls (run rt cb opts s es) = calls s"
  using assms
proof (induction es arbitrary: s)
  case Nil
  then show ?case by (simp add: run_Nil)
next
  case (Cons ev es)
  have "promiseStatus (step rt cb opts s ev) = Pending \<and> calls (step rt cb opts s ev) = calls s"
    using Cons.prems by (simp add: step_pending)
  then show ?case
    using Cons.IH [of "step rt cb opts s ev"] Cons.prems by (simp add: run_Cons)
qed

text \<open>The executor.\<close>

lemma beforeFirstCheck_inv: "poller_inv (beforeFirstCheck rt opts)"
  by (simp add: beforeFirstCheck_def Let_def initial_def poller_inv_def onDone_simps
      split: option.splits)

lemma beforeFirstCheck_fields:
  "promiseStatus (beforeFirstCheck rt opts) = Idle"
  "calls (beforeFirstCheck rt opts) = 0"
  "failures (beforeFirstCheck rt opts) = []"
  by (simp_all add: beforeFirstCheck_def Let_def initial_def onDone_simps split: option.splits)

lemma beforeFirstCheck_abortListener:
  "abortListener (beforeFirstCheck rt opts) = (signal opts \<noteq> None \<and> \<not> executor_throws rt opts)"
  by (auto simp: beforeFirstCheck_def executor_throws_def Let_def initial_def onDone_simps
      split: option.splits)

lemma beforeFirstCheck_no_signal:
  "signal opts = None \<Longrightarrow>
     beforeFirstCheck rt opts =
       initial\<lparr>overallTimeoutTimer := Some (timeout_of opts), intervalId := Some (interval_of opts)\<rparr>"
  by (simp add: beforeFirstCheck_def Let_def)

lemma beforeFirstCheck_not_pre_aborted:
  "\<not> pre_aborted opts \<Longrightarrow> outcome (beforeFirstCheck rt opts) = None"
  by (cases "signal opts")
     (simp_all add: beforeFirstCheck_def pre_aborted_def Let_def initial_def)

lemma beforeFirstCheck_pre_aborted:
  assumes "signal opts = Some sg" and "aborted sg" and "template_text rt (reason sg) = Some text"
  shows "outcome (beforeFirstCheck rt opts) = Some (RejectedWith (abortError rt InAbortedCheck text))"
    and "signalAborted (beforeFirstCheck rt opts)"
  using assms
  by (simp_all add: beforeFirstCheck_def Let_def initial_def onDone_simps abortError_def)

lemma beforeFirstCheck_throws:
  assumes "executor_throws rt opts"
  shows "outcome (beforeFirstCheck rt opts) = None"
    and "overallTimeoutTimer (beforeFirstCheck rt opts) = Some (timeout_of opts)"
    and "intervalId (beforeFirstCheck rt opts) = Some (interval_of opts)"
    and "\<not> abortListener (beforeFirstCheck rt opts)"
  using assms
  by (auto simp: beforeFirstCheck_def executor_throws_def Let_def initial_def
      split: option.splits)

lemma not_pre_aborted_not_throws: "\<not> pre_aborted opts \<Longrightarrow> \<not> executor_throws rt opts"
  by (cases "signal opts") (simp_all add: pre_aborted_def executor_throws_def)

lemma executor_inv: "poller_inv (executor rt cb opts)"
  by (simp add: executor_def checkCallback_inv beforeFirstCheck_inv)

lemma reachable_inv: "poller_inv (run rt cb opts (executor rt cb opts) es)"
  by (simp add: run_inv executor_inv)

lemma executor_calls: "\<not> executor_throws rt opts \<Longrightarrow> calls (executor rt cb opts) = 1"
  by (simp add: executor_def checkCallback_calls beforeFirstCheck_fields)

lemma executor_abortListener:
  "abortListener (executor rt cb opts) = (signal opts \<noteq> None \<and> \<not> executor_throws rt opts)"
  by (simp add: executor_def checkCallback_abortListener beforeFirstCheck_abortListener)

lemma settled_timers_cleared:
  "poller_inv s \<Longrightarrow> outcome s \<noteq> None \<Longrightarrow>
     finished s \<and> overallTimeoutTimer s = None \<and> intervalId s = None"
  by (simp add: poller_inv_def split: if_splits)

lemma message_abortError:
  "abortError rt at r = JErr (new_Error rt at (''Aborted: '' @ r))"
  "message (new_Error rt at m) = m"
  by (simp_all add: abortError_def new_Error_def)

lemma executor_pre_aborted:
  assumes "signal opts = Some sg" and "aborted sg" and "template_text rt (reason sg) = Some text"
  shows "outcome (executor rt cb opts) = Some (RejectedWith (abortError rt InAbortedCheck text))"
  using beforeFirstCheck_pre_aborted(1) [OF assms]
  by (simp add: executor_def checkCallback_outcome_settled)

lemma executor_plain_unsettled:
  assumes "cb 0 = Returns v" and "\<not> adoptable v" and "\<not> pre_aborted opts"
  shows "outcome (executor rt cb opts) = Some (ResolvedWith v)"
proof -
  have "\<not> is_thenable v" using assms(2) is_thenable_adoptable by blast
  moreover have "outcome (beforeFirstCheck rt opts) = None"
    using assms(3) by (rule beforeFirstCheck_not_pre_aborted)
  moreover have "\<not> executor_throws rt opts"
    using assms(3) by (rule not_pre_aborted_not_throws)
  ultimately show ?thesis
    using assms(1,2)
    by (simp add: executor_def checkCallback_returns beforeFirstCheck_fields onDone_simps)
qed


lemma executor_throws_first:
  assumes "signal opts = None" and "cb 0 = Throws e"
  shows "executor rt cb opts =
           initial\<lparr>overallTimeoutTimer := Some (timeout_of opts),
                   intervalId := Some (interval_of opts),
                   calls := 1, lastError := e, failures := [e]\<rparr>"
  using assms
  by (simp add: executor_def executor_throws_def beforeFirstCheck_no_signal checkCallback_def
      initial_def)

text \<open>
  A signal that is already aborted with a reason that has no string conversion ends the
  executor before the first check: the promise stays pending with both timers
  scheduled, no listener is registered and the callback has not been invoked when the
  promise is handed back. The timers go on to fire.
\<close>

lemma unrenderable_reason_stops_executor:
  assumes "executor_throws rt opts"
  shows "returned rt cb opts = executor rt cb opts"
    and "outcome (executor rt cb opts) = None"
    and "calls (executor rt cb opts) = 0"
    and "overallTimeoutTimer (executor rt cb opts) = Some (timeout_of opts)"
    and "intervalId (executor rt cb opts) = Some (interval_of opts)"
    and "\<not> abortListener (executor rt cb opts)"
  using assms
  by (simp_all add: returned_def executor_def beforeFirstCheck_throws beforeFirstCheck_fields)



lemma returned_settled:
  "finished (executor rt cb opts) \<Longrightarrow> returned rt cb opts = executor rt cb opts"
  by (simp add: returned_def Let_def split: option.splits)

lemma returned_no_clock:
  "clock opts = None \<Longrightarrow> returned rt cb opts = executor rt cb opts"
  by (simp add: returned_def Let_def)

lemma clockLoop_is_run:
  "clockLoop rt cb opts clk fuel k s = Some s' \<Longrightarrow> \<exists>es. s' = run rt cb opts s es"
proof (induction fuel arbitrary: k s)
  case 0
  then have "s' = s" by (simp split: if_splits)
  then have "s' = run rt cb opts s []" by (simp add: run_Nil)
  then show ?case by blast
next
  case (Suc fuel)
  show ?case
  proof (cases "\<not> finished s \<and> \<not> signalAborted s")
    case True
    let ?mid = "run rt cb opts (run rt cb opts s (fst (clk k))) (snd (clk k))"
    have "clockLoop rt cb opts clk fuel (Suc k) ?mid = Some s'"
      using True Suc.prems by simp
    then obtain es where "s' = run rt cb opts ?mid es"
      using Suc.IH by blast
    then have "s' = run rt cb opts s (fst (clk k) @ snd (clk k) @ es)"
      by (simp add: run_append)
    then show ?thesis by blast
  next
    case False
    then have "s' = s" using Suc.prems by auto
    then have "s' = run rt cb opts s []" by (simp add: run_Nil)
    then show ?thesis by blast
  qed
qed

lemma pumped_is_run:
  "pumped rt cb opts fuel = Some s' \<Longrightarrow> \<exists>es. s' = run rt cb opts (executor rt cb opts) es"
proof -
  assume p: "pumped rt cb opts fuel = Some s'"
  show ?thesis
  proof (cases "executor_throws rt opts \<or> clock opts = None")
    case True
    then have "s' = executor rt cb opts"
      using p by (auto simp: pumped_def split: if_splits)
    then have "s' = run rt cb opts (executor rt cb opts) []"
      by (simp add: run_Nil)
    then show ?thesis by blast
  next
    case False
    then obtain clk where "clock opts = Some clk" by auto
    then show ?thesis using p False by (simp add: pumped_def clockLoop_is_run)
  qed
qed

lemma clockLoop_ends:
  "clockLoop rt cb opts clk fuel k s = Some s' \<Longrightarrow> finished s' \<or> signalAborted s'"
  by (induction fuel arbitrary: k s) (auto split: if_splits)

text \<open>The options.\<close>

lemma waitForImpl_function:
  "waitForImpl rt (JFunction ps) cb opts = Inr (returned rt cb opts)"
  by (simp add: waitForImpl_def)


lemma impl_options_simps:
  "signal (impl_options rt options) = signal options"
  "clock (impl_options rt options) = clock options"
  "timeout (impl_options rt options) = timeout options"
  "interval (impl_options rt options) = interval options"
  "onTimeout (impl_options rt options) = onTimeout options"
  "showOriginalStackTrace (impl_options rt options) = showOriginalStackTrace options"
  "stackTraceError (impl_options rt options) = new_Error rt InWaitFor ''STACK_TRACE_MESSAGE''"
  by (simp_all add: impl_options_def)

lemma no_options_simps:
  "signal no_options = None" "clock no_options = None" "timeout no_options = None"
  "interval no_options = None" "onTimeout no_options = None"
  "showOriginalStackTrace no_options = None"
  by (simp_all add: no_options_def)

lemma opts_defaults:
  "onTimeout opts = None \<Longrightarrow> onTimeout_of opts v = v"
  "onTimeout opts = Some f \<Longrightarrow> onTimeout_of opts v = f v"
  "showOriginalStackTrace opts = None \<Longrightarrow> showOriginalStackTrace_of opts = False"
  "timeout opts = Some t \<Longrightarrow> timeout_of opts = t"
  "interval opts = Some i \<Longrightarrow> interval_of opts = i"
  by (simp_all add: onTimeout_of_def showOriginalStackTrace_of_def timeout_of_def interval_of_def)

text \<open>The executor ended by a reason that has no string conversion, on an example.\<close>

lemma symbol_reason_example:
  "executor_throws node_runtime symbol_options"
  "calls (returned node_runtime returns_undefined symbol_options) = 0"
  "outcome (returned node_runtime returns_undefined symbol_options) = None"
  "intervalId (returned node_runtime returns_undefined symbol_options) = Some 50"
  "calls (run node_runtime returns_undefined symbol_options
            (returned node_runtime returns_undefined symbol_options) [IntervalTick]) = 1"
  "outcome (run node_runtime returns_undefined symbol_options
              (returned node_runtime returns_undefined symbol_options) [IntervalTick])
     = Some (ResolvedWith JUndefined)"
proof -
  show t: "executor_throws node_runtime symbol_options"
    by (simp add: executor_throws_def symbol_options_def impl_options_simps symbol_signal_def)
  have i: "interval symbol_options = None"
    by (simp add: symbol_options_def impl_options_simps no_options_simps)
  let ?s = "returned node_runtime returns_undefined symbol_options"
  have s: "calls ?s = 0" "outcome ?s = None" "intervalId ?s = Some 50" "promiseStatus ?s = Idle"
    using unrenderable_reason_stops_executor [OF t, of returns_undefined] t i
    by (simp_all add: interval_of_def executor_def beforeFirstCheck_fields)
  show "calls ?s = 0" "outcome ?s = None" "intervalId ?s = Some 50"
    using s by simp_all
  have c: "returns_undefined (calls ?s) = Returns JUndefined"
    by (simp add: returns_undefined_def)
  have "step node_runtime returns_undefined symbol_options ?s IntervalTick =
      onDone JNull JUndefined (?s\<lparr>calls := Suc (calls ?s)\<rparr>)"
    using s c by (simp add: checkCallback_returns not_thenable_simps)
  then show "calls (run node_runtime returns_undefined symbol_options ?s [IntervalTick]) = 1"
    "outcome (run node_runtime returns_undefined symbol_options ?s [IntervalTick])
       = Some (ResolvedWith JUndefined)"
    using s by (simp_all add: run_Cons run_Nil onDone_simps not_adoptable_simps)
qed

lemma template_text_examples:
  "template_text rt (JNum 42) = Some ''42''"
  "template_text rt (JNum (- 7)) = Some ''-7''"
  "template_text rt (JStr ''Bailing out'') = Some ''Bailing out''"
  "template_text rt (JSymbol d) = None"
  by (simp_all add: decimal_int_def decimal.simps digit_char_def)

text \<open>The deadline.\<close>

lemma timeoutError_timer:
  "timeoutError rt opts (s\<lparr>overallTimeoutTimer := t\<rparr>) = timeoutError rt opts s"
  by (simp add: timeoutError_def)

lemma timeoutError_truthy: "truthy (lastError s) \<Longrightarrow> timeoutError rt opts s = lastError s"
  by (simp add: timeoutError_def)

lemma timeoutError_generic:
  "\<not> truthy (lastError s) \<Longrightarrow> is_generic_timeout (timeoutError rt opts s)"
  by (simp add: timeoutError_def Let_def new_Error_def copyStackTrace_def split: option.splits)

lemma generic_timeout_plain:
  "is_generic_timeout v \<Longrightarrow> truthy v \<and> \<not> adoptable v"
  by (cases v) (simp_all add: adoptable_def)

lemma armed_unsettled:
  "poller_inv s \<Longrightarrow> overallTimeoutTimer s \<noteq> None \<Longrightarrow> outcome s = None"
  by (simp add: poller_inv_def split: if_splits)

lemma inv_lastError:
  "poller_inv s \<Longrightarrow> lastError s = (case failures s of [] \<Rightarrow> JUndefined | e # rest \<Rightarrow> e)"
  by (simp add: poller_inv_def)

lemma step_Deadline_outcome:
  assumes "poller_inv s" and "overallTimeoutTimer s \<noteq> None"
  shows "outcome (step rt cb opts s Deadline) =
           Some (if truthy (onTimeout_of opts (timeoutError rt opts s))
                 then RejectedWith (onTimeout_of opts (timeoutError rt opts s))
                 else ResolvedWith JNull)"
  using assms armed_unsettled [OF assms]
  by (simp add: handleTimeout_def onDone_simps timeoutError_timer not_adoptable_simps)

text \<open>The first occurrence of a pattern.\<close>

lemma find_first_sound:
  "find_first pat s = Some (p, q) \<Longrightarrow> s = p @ pat @ q"
proof (induction s arbitrary: p q)
  case Nil
  then show ?case by (simp split: if_splits)
next
  case (Cons c cs)
  show ?case
  proof (cases "take (length pat) (c # cs) = pat")
    case True
    then have "p = []" "q = drop (length pat) (c # cs)"
      using Cons.prems by simp_all
    moreover have "c # cs = take (length pat) (c # cs) @ drop (length pat) (c # cs)"
      by (simp only: append_take_drop_id)
    ultimately show ?thesis using True by simp
  next
    case False
    then obtain p' where "find_first pat cs = Some (p', q)" "p = c # p'"
      using Cons.prems by (auto split: option.splits)
    then show ?thesis using Cons.IH by simp
  qed
qed

lemma find_first_first:
  assumes "\<forall>p q. pre @ pat @ post = p @ pat @ q \<longrightarrow> length pre \<le> length p"
  shows "find_first pat (pre @ pat @ post) = Some (pre, post)"
  using assms
proof (induction pre)
  case Nil
  show ?case
  proof (cases "pat @ post")
    case Nil
    then show ?thesis by simp
  next
    case (Cons c cs)
    have "take (length pat) (c # cs) = pat" "drop (length pat) (c # cs) = post"
      unfolding Cons [symmetric] by simp_all
    then have "find_first pat (c # cs) = Some ([], post)"
      by simp
    then show ?thesis by (simp add: Cons)
  qed
next
  case (Cons a pre)
  let ?s = "pre @ pat @ post"
  have no_match_here: "take (length pat) (a # ?s) \<noteq> pat"
  proof
    assume "take (length pat) (a # ?s) = pat"
    then have "a # ?s = [] @ pat @ drop (length pat) (a # ?s)"
      by (metis append_Nil append_take_drop_id)
    then have "(a # pre) @ pat @ post = [] @ pat @ drop (length pat) (a # ?s)"
      by simp
    then have "length (a # pre) \<le> length ([] :: string)"
      using Cons.prems by blast
    then show False by simp
  qed
  have "\<forall>p q. ?s = p @ pat @ q \<longrightarrow> length pre \<le> length p"
  proof (intro allI impI)
    fix p q
    assume "?s = p @ pat @ q"
    then have "(a # pre) @ pat @ post = (a # p) @ pat @ q" by simp
    then have "length (a # pre) \<le> length (a # p)" using Cons.prems by blast
    then show "length pre \<le> length p" by simp
  qed
  then have "find_first pat ?s = Some (pre, post)" by (rule Cons.IH)
  then show ?case using no_match_here by simp
qed

lemma find_first_none:
  assumes "\<forall>p q. s \<noteq> p @ pat @ q"
  shows "find_first pat s = None"
proof (cases "find_first pat s")
  case None
  then show ?thesis .
next
  case (Some r)
  then have "s = fst r @ pat @ snd r"
    using find_first_sound [of pat s "fst r" "snd r"] by simp
  then show ?thesis using assms by blast
qed

lemma first_occurrence_by_head:
  assumes "pat \<noteq> []" and "hd pat \<notin> set pre" and "pre @ pat @ post = p @ pat @ q"
  shows "length pre \<le> length p"
proof (rule ccontr)
  assume "\<not> length pre \<le> length p"
  then have lt: "length p < length pre" by simp
  have "(pre @ pat @ post) ! length p = pre ! length p"
    using lt by (simp add: nth_append)
  moreover have "(p @ pat @ q) ! length p = hd pat"
    using assms(1) by (cases pat) simp_all
  ultimately have "pre ! length p = hd pat" using assms(3) by simp
  then have "hd pat \<in> set pre" using lt by (metis nth_mem)
  then show False using assms(2) by simp
qed

section \<open>The argument check\<close>

text \<open>
  C5. Whatever is not a function is refused at once: \<^verbatim>\<open>waitForImpl\<close>, and \<^verbatim>\<open>waitFor\<close>
  through it, throws the \<^verbatim>\<open>TypeError\<close> with the message
  \<^verbatim>\<open>Received `callback` arg must be a function\<close> instead of returning a promise. The
  throw comes before the executor runs, so no timer exists: the result carries no
  poller state at all.
\<close>

theorem not_a_function_throws:
  assumes "typeof callback \<noteq> ''function''"
  shows "waitForImpl rt callback behaviour opts =
           Inl (TypeError ''Received `callback` arg must be a function'')
         \<and> waitFor rt callback behaviour options =
           Inl (TypeError ''Received `callback` arg must be a function'')"
  using assms by (simp add: waitForImpl_def waitFor_def Let_def)

theorem not_a_function_throws_witness:
  "typeof JNull \<noteq> ''function''
   \<and> waitFor node_runtime JNull returns_undefined no_options =
       Inl (TypeError ''Received `callback` arg must be a function'')"
  using not_a_function_throws [of JNull node_runtime returns_undefined undefined no_options]
  by simp

section \<open>A signal aborted before the call\<close>

text \<open>
  C1, as stated, says that with a signal that is already aborted the callback is never
  invoked. The executor settles the promise as aborted and then still makes its first
  \<^verbatim>\<open>checkCallback()\<close> call: with such a signal and a callback that throws, the callback
  has been invoked once when \<^verbatim>\<open>waitForImpl\<close> hands back the promise.
\<close>

theorem pre_aborted_check_runs_counterexample:
  "signal aborted_options = Some aborted_signal \<and> aborted aborted_signal \<and>
   waitForImpl node_runtime (JFunction []) always_throws_x aborted_options =
     Inr (returned node_runtime always_throws_x aborted_options) \<and>
   calls (returned node_runtime always_throws_x aborted_options) = 1 \<and>
   calls (returned node_runtime always_throws_x aborted_options) \<noteq> 0"
proof -
  have sg: "signal aborted_options = Some aborted_signal" "aborted aborted_signal"
    "template_text node_runtime (reason aborted_signal) = Some ''Bailing out''"
    by (simp_all add: aborted_options_def impl_options_simps aborted_signal_def)
  then have nt: "\<not> executor_throws node_runtime aborted_options"
    by (simp add: executor_throws_def)
  have "outcome (executor node_runtime always_throws_x aborted_options) \<noteq> None"
    using executor_pre_aborted [OF sg] by simp
  then have "finished (executor node_runtime always_throws_x aborted_options)"
    using settled_timers_cleared [OF executor_inv] by blast
  then have "returned node_runtime always_throws_x aborted_options =
      executor node_runtime always_throws_x aborted_options"
    by (rule returned_settled)
  then show ?thesis
    using sg nt by (simp add: executor_calls waitForImpl_function)
qed

text \<open>
  C1, amended. With a signal that is already aborted and whose reason has a string
  conversion, the promise is rejected during the call with an error whose message is
  \<^verbatim>\<open>Aborted: \<close> followed by that text, and both timers are cleared again before the
  promise is handed back; a fake clock is not advanced. The callback is invoked exactly
  once, by the first synchronous check, and never again whatever the host delivers
  later; nothing that check or a later delivery does changes the rejection.
\<close>

theorem pre_aborted_cancelled_after_one_check:
  assumes "signal opts = Some sg" and "aborted sg"
    and "template_text rt (reason sg) = Some text"
  shows "(\<exists>e. outcome (run rt cb opts (executor rt cb opts) es) = Some (RejectedWith (JErr e))
              \<and> message e = ''Aborted: '' @ text)
         \<and> calls (run rt cb opts (executor rt cb opts) es) = 1
         \<and> overallTimeoutTimer (executor rt cb opts) = None
         \<and> intervalId (executor rt cb opts) = None
         \<and> returned rt cb opts = executor rt cb opts"
proof -
  let ?s = "executor rt cb opts"
  have nt: "\<not> executor_throws rt opts"
    using assms by (simp add: executor_throws_def)
  have out: "outcome ?s = Some (RejectedWith (abortError rt InAbortedCheck text))"
    using assms by (rule executor_pre_aborted)
  then have cleared: "finished ?s \<and> overallTimeoutTimer ?s = None \<and> intervalId ?s = None"
    using settled_timers_cleared [OF executor_inv, of rt cb opts] by simp
  have "outcome (run rt cb opts ?s es) =
      Some (RejectedWith (abortError rt InAbortedCheck text))"
    using out by (rule run_outcome_settled)
  then have "\<exists>e. outcome (run rt cb opts ?s es) = Some (RejectedWith (JErr e))
      \<and> message e = ''Aborted: '' @ text"
    by (simp add: message_abortError)
  moreover have "calls (run rt cb opts ?s es) = 1"
    using cleared run_interval_cleared [of ?s rt cb opts es] nt by (simp add: executor_calls)
  moreover have "returned rt cb opts = ?s"
    using cleared by (simp add: returned_settled)
  ultimately show ?thesis using cleared by simp
qed

theorem pre_aborted_cancelled_after_one_check_witness:
  "signal aborted_options = Some aborted_signal \<and> aborted aborted_signal \<and>
   template_text node_runtime (reason aborted_signal) = Some ''Bailing out'' \<and>
   calls (run node_runtime always_throws_x aborted_options
            (executor node_runtime always_throws_x aborted_options) [IntervalTick, Deadline]) = 1 \<and>
   intervalId (executor node_runtime always_throws_x aborted_options) = None \<and>
   returned node_runtime always_throws_x aborted_options =
     executor node_runtime always_throws_x aborted_options"
proof -
  have sg: "signal aborted_options = Some aborted_signal"
    by (simp add: aborted_options_def impl_options_simps)
  have ab: "aborted aborted_signal"
    by (simp add: aborted_signal_def)
  have tx: "template_text node_runtime (reason aborted_signal) = Some ''Bailing out''"
    by (simp add: aborted_signal_def)
  show ?thesis
    using sg ab tx pre_aborted_cancelled_after_one_check [OF sg ab tx] by simp
qed

section \<open>Settlement\<close>

text \<open>
  C3, as stated, says that at settlement the listener on the signal is detached. The
  source registers the listener and never removes it: after a callback has succeeded at
  once, with a signal that is not aborted, the promise is resolved and the listener is
  still registered.
\<close>

theorem listener_not_detached_counterexample:
  "outcome (executor node_runtime returns_undefined live_options) = Some (ResolvedWith JUndefined)
   \<and> abortListener (executor node_runtime returns_undefined live_options)"
proof -
  have "\<not> pre_aborted live_options"
    by (simp add: pre_aborted_def live_options_def impl_options_simps live_signal_def)
  moreover have "signal live_options \<noteq> None"
    by (simp add: live_options_def impl_options_simps)
  ultimately show ?thesis
    by (simp add: executor_plain_unsettled returns_undefined_def not_adoptable_simps
        executor_abortListener not_pre_aborted_not_throws)
qed

text \<open>
  C3, amended. The promise settles at most once and the first settlement wins: once
  the promise has an outcome, whatever the host delivers afterwards (ticks, the
  deadline, an abort, the handlers of a deferred value still in flight) leaves that
  outcome as it is and invokes the callback no more. In every settled state
  \<open>finished\<close> is set and both timers are cleared. The listener on the signal is not
  detached: where the executor has registered it (a signal was passed in and the
  executor was not ended by a throw before), it stays registered.
\<close>

theorem settlement_exclusive:
  assumes "outcome (run rt cb opts (executor rt cb opts) es) = Some r"
  shows "outcome (run rt cb opts (executor rt cb opts) (es @ es')) = Some r
       \<and> finished (run rt cb opts (executor rt cb opts) es)
       \<and> overallTimeoutTimer (run rt cb opts (executor rt cb opts) es) = None
       \<and> intervalId (run rt cb opts (executor rt cb opts) es) = None
       \<and> overallTimeoutTimer (run rt cb opts (executor rt cb opts) (es @ es')) = None
       \<and> intervalId (run rt cb opts (executor rt cb opts) (es @ es')) = None
       \<and> calls (run rt cb opts (executor rt cb opts) (es @ es')) =
           calls (run rt cb opts (executor rt cb opts) es)
       \<and> abortListener (run rt cb opts (executor rt cb opts) (es @ es')) =
           (signal opts \<noteq> None \<and> \<not> executor_throws rt opts)"
proof -
  let ?s = "run rt cb opts (executor rt cb opts) es"
  let ?t = "run rt cb opts (executor rt cb opts) (es @ es')"
  have t: "?t = run rt cb opts ?s es'"
    by (simp add: run_append)
  have later: "outcome ?t = Some r"
    unfolding t using assms by (rule run_outcome_settled)
  have now: "finished ?s \<and> overallTimeoutTimer ?s = None \<and> intervalId ?s = None"
    using settled_timers_cleared [OF reachable_inv, of rt cb opts es] assms by simp
  have then_: "finished ?t \<and> overallTimeoutTimer ?t = None \<and> intervalId ?t = None"
    using settled_timers_cleared [OF reachable_inv, of rt cb opts "es @ es'"] later by simp
  have same_calls: "calls ?t = calls ?s"
    unfolding t using now run_interval_cleared [of ?s rt cb opts es'] by simp
  have "abortListener ?t = (signal opts \<noteq> None \<and> \<not> executor_throws rt opts)"
    by (simp add: run_abortListener executor_abortListener)
  then show ?thesis using later now then_ same_calls by simp
qed

theorem settlement_exclusive_witness:
  "outcome (run bare_runtime always_throws_x x_options
              (executor bare_runtime always_throws_x x_options) [IntervalTick, Deadline])
     = Some (RejectedWith error_x)
   \<and> outcome (run bare_runtime always_throws_x x_options
              (executor bare_runtime always_throws_x x_options)
              ([IntervalTick, Deadline] @ [IntervalTick, Abort (JStr ''late''), Deadline]))
     = Some (RejectedWith error_x)"
proof -
  have o: "signal x_options = None" "onTimeout x_options = None"
    by (simp_all add: x_options_def impl_options_simps no_options_simps)
  have "outcome (run bare_runtime always_throws_x x_options
              (executor bare_runtime always_throws_x x_options) [IntervalTick, Deadline])
     = Some (RejectedWith error_x)"
    using o
    by (simp add: run_Cons run_Nil executor_throws_first always_throws_x_def
        checkCallback_def initial_def handleTimeout_def timeoutError_def opts_defaults
        onDone_simps error_x_def)
  then show ?thesis
    using settlement_exclusive [of bare_runtime always_throws_x x_options
        "[IntervalTick, Deadline]" "RejectedWith error_x"
        "[IntervalTick, Abort (JStr ''late''), Deadline]"]
    by simp
qed

section \<open>The first check\<close>




section \<open>Deferred values\<close>




text \<open>
  C2. When an invocation of the callback returns a deferred value, the callback is not
  invoked again before that value settles: whatever the host delivers that is not the
  settlement (interval ticks, the deadline, an abort) leaves the number of invocations
  where that call put it, and a direct call of \<^verbatim>\<open>checkCallback\<close> from any other
  trigger returns at once without changing anything. With an interval of 1 ms and a
  deferred value that settles after 20 ms, the 19 ticks in between find the callback
  invoked once.
\<close>

theorem deferred_blocks_checks:
  assumes "promiseStatus s \<noteq> Pending"
    and "cb (calls s) = Returns d" and "is_thenable d"
    and "\<forall>ev\<in>set es. \<not> is_settle_event ev"
  shows "calls (run rt cb opts (checkCallback rt opts cb s) es) = Suc (calls s)
       \<and> checkCallback rt opts cb (run rt cb opts (checkCallback rt opts cb s) es)
           = run rt cb opts (checkCallback rt opts cb s) es"
proof -
  have after: "promiseStatus (checkCallback rt opts cb s) = Pending \<and>
      calls (checkCallback rt opts cb s) = Suc (calls s)"
    using assms(1-3) by (simp add: checkCallback_returns)
  then have "promiseStatus (run rt cb opts (checkCallback rt opts cb s) es) = Pending \<and>
      calls (run rt cb opts (checkCallback rt opts cb s) es) = Suc (calls s)"
    using run_pending [of "checkCallback rt opts cb s" es rt cb opts] assms(4) by simp
  then show ?thesis by (simp add: checkCallback_pending)
qed

theorem deferred_blocks_checks_witness:
  "executor node_runtime returns_promise tick_options =
     checkCallback node_runtime tick_options returns_promise
       (beforeFirstCheck node_runtime tick_options) \<and>
   intervalId (beforeFirstCheck node_runtime tick_options) = Some 1 \<and>
   promiseStatus (beforeFirstCheck node_runtime tick_options) \<noteq> Pending \<and>
   returns_promise (calls (beforeFirstCheck node_runtime tick_options)) = Returns a_promise \<and>
   is_thenable a_promise \<and>
   calls (run node_runtime returns_promise tick_options
            (checkCallback node_runtime tick_options returns_promise
               (beforeFirstCheck node_runtime tick_options))
            (replicate 19 IntervalTick)) = 1"
proof -
  have a: "promiseStatus (beforeFirstCheck node_runtime tick_options) \<noteq> Pending"
    by (simp add: beforeFirstCheck_fields)
  have b: "returns_promise (calls (beforeFirstCheck node_runtime tick_options)) = Returns a_promise"
    by (simp add: returns_promise_def)
  have c: "is_thenable a_promise"
    by (simp add: is_thenable_def a_promise_def)
  have d: "\<forall>ev\<in>set (replicate 19 IntervalTick). \<not> is_settle_event ev"
    by simp
  have o: "signal tick_options = None" "interval tick_options = Some 1"
    by (simp_all add: tick_options_def impl_options_simps no_options_def)
  have e: "intervalId (beforeFirstCheck node_runtime tick_options) = Some 1"
    using o by (simp add: beforeFirstCheck_no_signal opts_defaults)
  have nt: "\<not> executor_throws node_runtime tick_options"
    using o by (simp add: executor_throws_def)
  show ?thesis
    using a b c d e nt
      deferred_blocks_checks [of "beforeFirstCheck node_runtime tick_options" returns_promise
        a_promise "replicate 19 IntervalTick" node_runtime tick_options]
    by (simp add: executor_def beforeFirstCheck_fields)
qed

section \<open>Failures of the callback\<close>



section \<open>The deadline\<close>

text \<open>
  C4, as stated, says that after some invocation has failed with a truthy value the
  deadline rejects with that error and not with the generic one. \<open>lastError\<close> is
  overwritten by every failure, the falsy ones too: a callback that throws an
  \<^verbatim>\<open>Error\<close> first and \<^verbatim>\<open>undefined\<close> at the next tick is rejected at the deadline with
  \<^verbatim>\<open>Timed out in waitFor.\<close>
\<close>

theorem earlier_truthy_failure_lost_counterexample:
  "throws_x_then_undefined 0 = Throws error_x \<and> truthy error_x \<and>
   outcome (run bare_runtime throws_x_then_undefined x_options
              (executor bare_runtime throws_x_then_undefined x_options) [IntervalTick, Deadline])
     = Some (RejectedWith (JErr \<lparr>message = ''Timed out in waitFor.'', stack = None\<rparr>))"
proof -
  have o: "signal x_options = None" "onTimeout x_options = None"
    "showOriginalStackTrace x_options = None"
    "stackTraceError x_options = \<lparr>message = ''STACK_TRACE_MESSAGE'', stack = None\<rparr>"
    by (simp_all add: x_options_def impl_options_simps no_options_def new_Error_def
        bare_runtime_def)
  have c: "throws_x_then_undefined 0 = Throws error_x"
    "throws_x_then_undefined (Suc 0) = Throws JUndefined"
    by (simp_all add: throws_x_then_undefined_def)
  let ?s1 = "step bare_runtime throws_x_then_undefined x_options
      (executor bare_runtime throws_x_then_undefined x_options) IntervalTick"
  have s1: "lastError ?s1 = JUndefined \<and> outcome ?s1 = None \<and> overallTimeoutTimer ?s1 \<noteq> None"
    using o c by (simp add: executor_throws_first checkCallback_def initial_def)
  have "outcome (step bare_runtime throws_x_then_undefined x_options ?s1 Deadline) =
      Some (RejectedWith (JErr \<lparr>message = ''Timed out in waitFor.'', stack = None\<rparr>))"
    using s1 o
    by (auto simp: handleTimeout_def onDone_simps timeoutError_def Let_def opts_defaults
        new_Error_def copyStackTrace_def bare_runtime_def)
  then show ?thesis
    using c by (simp add: run_Cons run_Nil error_x_def)
qed

text \<open>
  C4, amended. When the deadline fires, the terminal error is the latest recorded
  failure if that value is truthy, whatever failed before it; if the latest recorded
  failure is falsy, or nothing has failed, it is a generic error with the message
  \<^verbatim>\<open>Timed out in waitFor.\<close> Either way it is passed through \<^verbatim>\<open>onTimeout\<close>, and the promise
  is rejected with what \<^verbatim>\<open>onTimeout\<close> returns when that is truthy (so with the terminal
  error itself under the default \<^verbatim>\<open>onTimeout\<close>).
\<close>

theorem deadline_terminal_error:
  assumes "overallTimeoutTimer (run rt cb opts (executor rt cb opts) es) \<noteq> None"
  shows "\<exists>terminal.
           (case failures (run rt cb opts (executor rt cb opts) es) of
              [] \<Rightarrow> is_generic_timeout terminal
            | e # earlier \<Rightarrow> if truthy e then terminal = e else is_generic_timeout terminal)
         \<and> (truthy (onTimeout_of opts terminal) \<longrightarrow>
              outcome (step rt cb opts (run rt cb opts (executor rt cb opts) es) Deadline)
                = Some (RejectedWith (onTimeout_of opts terminal)))"
proof -
  let ?s = "run rt cb opts (executor rt cb opts) es"
  let ?terminal = "timeoutError rt opts ?s"
  have inv: "poller_inv ?s" by (rule reachable_inv)
  have "case failures ?s of
          [] \<Rightarrow> is_generic_timeout ?terminal
        | e # earlier \<Rightarrow> if truthy e then ?terminal = e else is_generic_timeout ?terminal"
  proof (cases "failures ?s")
    case Nil
    then have "\<not> truthy (lastError ?s)" using inv_lastError [OF inv] by simp
    then show ?thesis using Nil by (simp add: timeoutError_generic)
  next
    case (Cons e earlier)
    then have "lastError ?s = e" using inv_lastError [OF inv] by simp
    then show ?thesis using Cons by (simp add: timeoutError_generic timeoutError_truthy)
  qed
  moreover have "truthy (onTimeout_of opts ?terminal) \<longrightarrow>
      outcome (step rt cb opts ?s Deadline) = Some (RejectedWith (onTimeout_of opts ?terminal))"
    using step_Deadline_outcome [OF inv assms] by simp
  ultimately show ?thesis by blast
qed

theorem deadline_terminal_error_witness:
  "overallTimeoutTimer (run bare_runtime always_throws_x x_options
       (executor bare_runtime always_throws_x x_options) [IntervalTick]) \<noteq> None \<and>
   outcome (step bare_runtime always_throws_x x_options
       (run bare_runtime always_throws_x x_options
          (executor bare_runtime always_throws_x x_options) [IntervalTick]) Deadline)
     = Some (RejectedWith error_x) \<and>
   overallTimeoutTimer (run bare_runtime always_throws_undefined x_options
       (executor bare_runtime always_throws_undefined x_options) [IntervalTick]) \<noteq> None \<and>
   (\<exists>t. is_generic_timeout t \<and>
      outcome (step bare_runtime always_throws_undefined x_options
         (run bare_runtime always_throws_undefined x_options
            (executor bare_runtime always_throws_undefined x_options) [IntervalTick]) Deadline)
        = Some (RejectedWith t))"
proof -
  have o: "signal x_options = None" "onTimeout x_options = None"
    by (simp_all add: x_options_def impl_options_simps no_options_def)
  let ?sx = "run bare_runtime always_throws_x x_options
       (executor bare_runtime always_throws_x x_options) [IntervalTick]"
  let ?su = "run bare_runtime always_throws_undefined x_options
       (executor bare_runtime always_throws_undefined x_options) [IntervalTick]"
  have sx: "overallTimeoutTimer ?sx \<noteq> None" "failures ?sx = [error_x, error_x]"
    using o
    by (simp_all add: run_Cons run_Nil executor_throws_first always_throws_x_def
        checkCallback_def initial_def)
  have su: "overallTimeoutTimer ?su \<noteq> None" "failures ?su = [JUndefined, JUndefined]"
    using o
    by (simp_all add: run_Cons run_Nil executor_throws_first always_throws_undefined_def
        checkCallback_def initial_def)
  have x: "outcome (step bare_runtime always_throws_x x_options ?sx Deadline)
      = Some (RejectedWith error_x)"
    using deadline_terminal_error [OF sx(1)] sx(2) o
    by (auto simp: opts_defaults error_x_def)
  obtain t where t: "is_generic_timeout t"
    "truthy (onTimeout_of x_options t) \<longrightarrow>
       outcome (step bare_runtime always_throws_undefined x_options ?su Deadline)
         = Some (RejectedWith (onTimeout_of x_options t))"
    using deadline_terminal_error [OF su(1)] su(2) by auto
  have "truthy t" using t(1) by (cases t) simp_all
  then have u: "\<exists>t. is_generic_timeout t \<and>
      outcome (step bare_runtime always_throws_undefined x_options ?su Deadline)
        = Some (RejectedWith t)"
    using t o by (auto simp: opts_defaults)
  show ?thesis
    using sx(1) su(1) x u by simp
qed

text \<open>
  C9. \<^verbatim>\<open>onDone\<close> tells rejection from resolution by the truthiness of its first
  argument alone. When the deadline fires and \<^verbatim>\<open>onTimeout\<close> returns a falsy value for
  the terminal error, the promise is resolved with \<^verbatim>\<open>null\<close>.
\<close>

theorem falsy_onTimeout_resolves_null:
  assumes "overallTimeoutTimer (run rt cb opts (executor rt cb opts) es) \<noteq> None"
    and "\<not> truthy (onTimeout_of opts
                      (timeoutError rt opts (run rt cb opts (executor rt cb opts) es)))"
  shows "outcome (step rt cb opts (run rt cb opts (executor rt cb opts) es) Deadline)
           = Some (ResolvedWith JNull)"
  using step_Deadline_outcome [OF reachable_inv assms(1)] assms(2) by simp

theorem falsy_onTimeout_resolves_null_witness:
  "overallTimeoutTimer (run bare_runtime always_throws_x null_options
       (executor bare_runtime always_throws_x null_options) [IntervalTick]) \<noteq> None \<and>
   \<not> truthy (onTimeout_of null_options
       (timeoutError bare_runtime null_options
          (run bare_runtime always_throws_x null_options
             (executor bare_runtime always_throws_x null_options) [IntervalTick]))) \<and>
   outcome (step bare_runtime always_throws_x null_options
       (run bare_runtime always_throws_x null_options
          (executor bare_runtime always_throws_x null_options) [IntervalTick]) Deadline)
     = Some (ResolvedWith JNull)"
proof -
  have o: "signal null_options = None" "onTimeout null_options = Some returns_null_onTimeout"
    by (simp_all add: null_options_def impl_options_simps no_options_def)
  let ?s = "run bare_runtime always_throws_x null_options
       (executor bare_runtime always_throws_x null_options) [IntervalTick]"
  have armed: "overallTimeoutTimer ?s \<noteq> None"
    using o
    by (simp add: run_Cons run_Nil executor_throws_first always_throws_x_def checkCallback_def
        initial_def)
  have falsy: "\<not> truthy (onTimeout_of null_options (timeoutError bare_runtime null_options ?s))"
    using o by (simp add: opts_defaults returns_null_onTimeout_def)
  show ?thesis
    using armed falsy falsy_onTimeout_resolves_null [OF armed falsy] by simp
qed

section \<open>The stack trace of the timeout error\<close>

text \<open>
  C8, as stated, speaks of every timeout at which no stack of a recorded failure exists
  and \<^verbatim>\<open>showOriginalStackTrace\<close> is false. A recorded failure that is truthy and has no
  stack, such as a thrown string, is such a timeout: \<^verbatim>\<open>handleTimeout\<close> takes the
  failure itself for the terminal error, builds no timeout error and relocates nothing,
  and the promise is rejected with the string.
\<close>

theorem stackless_failure_passed_through_counterexample:
  "always_throws_boom 0 = Throws (JStr ''boom'') \<and> truthy (JStr ''boom'') \<and>
   get_prop (JStr ''boom'') ''stack'' = JUndefined \<and>
   \<not> showOriginalStackTrace_of node_x_options \<and>
   hasStack node_runtime \<and>
   timeoutError node_runtime node_x_options
     (run node_runtime always_throws_boom node_x_options
        (executor node_runtime always_throws_boom node_x_options) [IntervalTick])
     = JStr ''boom'' \<and>
   outcome (run node_runtime always_throws_boom node_x_options
              (executor node_runtime always_throws_boom node_x_options) [IntervalTick, Deadline])
     = Some (RejectedWith (JStr ''boom''))"
proof -
  have o: "signal node_x_options = None" "onTimeout node_x_options = None"
    "showOriginalStackTrace node_x_options = None"
    by (simp_all add: node_x_options_def impl_options_simps no_options_def)
  have c: "always_throws_boom n = Throws (JStr ''boom'')" for n
    by (simp add: always_throws_boom_def)
  let ?s1 = "run node_runtime always_throws_boom node_x_options
      (executor node_runtime always_throws_boom node_x_options) [IntervalTick]"
  have s1: "lastError ?s1 = JStr ''boom'' \<and> outcome ?s1 = None \<and> overallTimeoutTimer ?s1 \<noteq> None"
    using o c by (simp add: run_Cons run_Nil executor_throws_first checkCallback_def initial_def)
  then have te: "timeoutError node_runtime node_x_options ?s1 = JStr ''boom''"
    by (simp add: timeoutError_truthy)
  have "outcome (step node_runtime always_throws_boom node_x_options ?s1 Deadline) =
      Some (RejectedWith (JStr ''boom''))"
    using s1 te o
    by (auto simp: handleTimeout_def onDone_simps timeoutError_timer opts_defaults)
  then have "outcome (run node_runtime always_throws_boom node_x_options
              (executor node_runtime always_throws_boom node_x_options) [IntervalTick, Deadline])
     = Some (RejectedWith (JStr ''boom''))"
    by (simp add: run_Cons run_Nil)
  then show ?thesis
    using o c te by (simp add: opts_defaults node_runtime_def)
qed

text \<open>
  C8, amended. A truthy recorded failure is the terminal error as it is, with or
  without a stack, and nothing is relocated. When the deadline finds no truthy failure
  (\<open>lastError\<close> is falsy) and \<^verbatim>\<open>showOriginalStackTrace\<close> is false, the error built by
  \<^verbatim>\<open>handleTimeout\<close> has the message \<^verbatim>\<open>Timed out in waitFor.\<close> and the stack trace
  captured at the call of \<^verbatim>\<open>waitFor\<close>, in which the first occurrence of the captured
  error's message is replaced by the timeout message (a stack trace that does not show
  the message is taken over as it is). When the captured stack is \<^verbatim>\<open>undefined\<close>
  nothing is copied and nothing fails: the timeout error stays as it was created, and
  on a runtime that gives errors no stack trace it has no stack either. Under the default \<^verbatim>\<open>onTimeout\<close> this error is what
  the promise is rejected with.
\<close>

theorem timeout_stack_relocated:
  "(truthy (lastError s) \<longrightarrow> timeoutError rt opts s = lastError s)
   \<and> (\<not> truthy (lastError s) \<and> \<not> showOriginalStackTrace_of opts \<longrightarrow>
        (stack (stackTraceError opts) = Some (pre @ message (stackTraceError opts) @ post)
            \<and> (\<forall>p q. pre @ message (stackTraceError opts) @ post
                        = p @ message (stackTraceError opts) @ q \<longrightarrow> length pre \<le> length p)
          \<longrightarrow> timeoutError rt opts s =
                JErr \<lparr>message = ''Timed out in waitFor.'',
                      stack = Some (pre @ ''Timed out in waitFor.'' @ post)\<rparr>)
       \<and> (stack (stackTraceError opts) = Some st
            \<and> (\<forall>p q. st \<noteq> p @ message (stackTraceError opts) @ q)
          \<longrightarrow> timeoutError rt opts s =
                JErr \<lparr>message = ''Timed out in waitFor.'', stack = Some st\<rparr>)
       \<and> (stack (stackTraceError opts) = None
          \<longrightarrow> timeoutError rt opts s =
                JErr (new_Error rt InHandleTimeout ''Timed out in waitFor.''))
       \<and> (\<not> hasStack rt \<and> stack (stackTraceError opts) = None
          \<longrightarrow> timeoutError rt opts s =
                JErr \<lparr>message = ''Timed out in waitFor.'', stack = None\<rparr>)
       \<and> (overallTimeoutTimer s \<noteq> None \<and> outcome s = None \<and> onTimeout opts = None
          \<longrightarrow> outcome (step rt cb opts s Deadline) =
                Some (RejectedWith (timeoutError rt opts s))))"
proof (intro conjI impI)
  assume "truthy (lastError s)"
  then show "timeoutError rt opts s = lastError s"
    by (rule timeoutError_truthy)
next
  assume a: "\<not> truthy (lastError s) \<and> \<not> showOriginalStackTrace_of opts"
  assume h: "overallTimeoutTimer s \<noteq> None \<and> outcome s = None \<and> onTimeout opts = None"
  have "is_generic_timeout (timeoutError rt opts s)"
    using a by (simp add: timeoutError_generic)
  then have "truthy (timeoutError rt opts s) \<and> \<not> adoptable (timeoutError rt opts s)"
    by (rule generic_timeout_plain)
  then show "outcome (step rt cb opts s Deadline) = Some (RejectedWith (timeoutError rt opts s))"
    using h by (auto simp: handleTimeout_def onDone_simps timeoutError_timer opts_defaults)
next
  let ?m = "message (stackTraceError opts)"
  assume a: "\<not> truthy (lastError s) \<and> \<not> showOriginalStackTrace_of opts"
  assume h: "stack (stackTraceError opts) = Some (pre @ ?m @ post)
      \<and> (\<forall>p q. pre @ ?m @ post = p @ ?m @ q \<longrightarrow> length pre \<le> length p)"
  then have "find_first ?m (pre @ ?m @ post) = Some (pre, post)"
    by (simp add: find_first_first)
  then have "js_replace (pre @ ?m @ post) ?m ''Timed out in waitFor.''
      = pre @ ''Timed out in waitFor.'' @ post"
    by (simp add: js_replace_def)
  then show "timeoutError rt opts s =
      JErr \<lparr>message = ''Timed out in waitFor.'', stack = Some (pre @ ''Timed out in waitFor.'' @ post)\<rparr>"
    using a h by (simp add: timeoutError_def Let_def copyStackTrace_def new_Error_def)
next
  let ?m = "message (stackTraceError opts)"
  assume a: "\<not> truthy (lastError s) \<and> \<not> showOriginalStackTrace_of opts"
  assume h: "stack (stackTraceError opts) = Some st \<and> (\<forall>p q. st \<noteq> p @ ?m @ q)"
  then have "find_first ?m st = None"
    by (simp add: find_first_none)
  then have "js_replace st ?m ''Timed out in waitFor.'' = st"
    by (simp add: js_replace_def)
  then show "timeoutError rt opts s = JErr \<lparr>message = ''Timed out in waitFor.'', stack = Some st\<rparr>"
    using a h by (simp add: timeoutError_def Let_def copyStackTrace_def new_Error_def)
next
  assume a: "\<not> truthy (lastError s) \<and> \<not> showOriginalStackTrace_of opts"
  assume "stack (stackTraceError opts) = None"
  then show "timeoutError rt opts s = JErr (new_Error rt InHandleTimeout ''Timed out in waitFor.'')"
    using a by (simp add: timeoutError_def Let_def copyStackTrace_def)
next
  assume a: "\<not> truthy (lastError s) \<and> \<not> showOriginalStackTrace_of opts"
  assume "\<not> hasStack rt \<and> stack (stackTraceError opts) = None"
  then show "timeoutError rt opts s = JErr \<lparr>message = ''Timed out in waitFor.'', stack = None\<rparr>"
    using a by (simp add: timeoutError_def Let_def copyStackTrace_def new_Error_def)
qed

theorem timeout_stack_relocated_witness:
  "\<not> truthy (lastError idle_state) \<and>
   \<not> showOriginalStackTrace_of (impl_options node_runtime no_options) \<and>
   stack (stackTraceError (impl_options node_runtime no_options)) =
     Some (''Error: '' @ ''STACK_TRACE_MESSAGE'' @ '' at waitFor (waitFor.ts:155)'') \<and>
   stack (new_Error node_runtime InHandleTimeout ''Timed out in waitFor.'') =
     Some ''Error: Timed out in waitFor. at handleTimeout (waitFor.ts:139)'' \<and>
   timeoutError node_runtime (impl_options node_runtime no_options) idle_state =
     JErr \<lparr>message = ''Timed out in waitFor.'',
           stack = Some ''Error: Timed out in waitFor. at waitFor (waitFor.ts:155)''\<rparr> \<and>
   \<not> hasStack bare_runtime \<and>
   stack (stackTraceError (impl_options bare_runtime no_options)) = None \<and>
   timeoutError bare_runtime (impl_options bare_runtime no_options) idle_state =
     JErr \<lparr>message = ''Timed out in waitFor.'', stack = None\<rparr> \<and>
   overallTimeoutTimer idle_state \<noteq> None \<and> outcome idle_state = None \<and>
   onTimeout (impl_options node_runtime no_options) = None \<and>
   outcome (step node_runtime returns_promise (impl_options node_runtime no_options)
              idle_state Deadline) =
     Some (RejectedWith (JErr \<lparr>message = ''Timed out in waitFor.'',
           stack = Some ''Error: Timed out in waitFor. at waitFor (waitFor.ts:155)''\<rparr>)) \<and>
   truthy (lastError (idle_state\<lparr>lastError := JStr ''boom''\<rparr>)) \<and>
   timeoutError node_runtime (impl_options node_runtime no_options)
     (idle_state\<lparr>lastError := JStr ''boom''\<rparr>) = JStr ''boom''"
proof -
  let ?no = "impl_options node_runtime no_options"
  let ?bo = "impl_options bare_runtime no_options"
  have a: "\<not> truthy (lastError idle_state)"
    by (simp add: idle_state_def initial_def)
  have b: "\<not> showOriginalStackTrace_of (impl_options rt no_options)" for rt
    by (simp add: opts_defaults impl_options_simps no_options_simps)
  have i: "overallTimeoutTimer idle_state \<noteq> None" "outcome idle_state = None"
    "onTimeout ?no = None"
    by (simp_all add: idle_state_def initial_def impl_options_simps no_options_simps)
  have m: "message (stackTraceError ?no) = ''STACK_TRACE_MESSAGE''"
    by (simp add: impl_options_simps new_Error_def)
  have c: "stack (stackTraceError ?no) =
      Some (''Error: '' @ ''STACK_TRACE_MESSAGE'' @ '' at waitFor (waitFor.ts:155)'')"
    by (simp add: impl_options_simps new_Error_def node_runtime_def)
  have c': "stack (new_Error node_runtime InHandleTimeout ''Timed out in waitFor.'') =
     Some ''Error: Timed out in waitFor. at handleTimeout (waitFor.ts:139)''"
    by (simp add: new_Error_def node_runtime_def)
  have d: "\<forall>p q. ''Error: '' @ ''STACK_TRACE_MESSAGE'' @ '' at waitFor (waitFor.ts:155)''
              = p @ ''STACK_TRACE_MESSAGE'' @ q \<longrightarrow> length ''Error: '' \<le> length p"
  proof (intro allI impI)
    fix p q :: string
    assume "''Error: '' @ ''STACK_TRACE_MESSAGE'' @ '' at waitFor (waitFor.ts:155)''
        = p @ ''STACK_TRACE_MESSAGE'' @ q"
    then show "length ''Error: '' \<le> length p"
      by (rule first_occurrence_by_head [rotated 2]) simp_all
  qed
  have e: "\<not> hasStack bare_runtime" "stack (stackTraceError ?bo) = None"
    by (simp_all add: bare_runtime_def impl_options_simps new_Error_def)
  have n: "timeoutError node_runtime ?no idle_state =
     JErr \<lparr>message = ''Timed out in waitFor.'',
           stack = Some (''Error: '' @ ''Timed out in waitFor.'' @ '' at waitFor (waitFor.ts:155)'')\<rparr>"
    using timeout_stack_relocated
        [of idle_state node_runtime ?no "''Error: ''" "'' at waitFor (waitFor.ts:155)''"]
      a b c d m by simp
  have r: "timeoutError bare_runtime ?bo idle_state =
     JErr \<lparr>message = ''Timed out in waitFor.'', stack = None\<rparr>"
    using timeout_stack_relocated [of idle_state bare_runtime ?bo] a b e
    by (simp add: new_Error_def)
  have t: "outcome (step node_runtime returns_promise ?no idle_state Deadline) =
      Some (RejectedWith (timeoutError node_runtime ?no idle_state))"
    using timeout_stack_relocated [of idle_state node_runtime ?no _ _ _ returns_promise] a b i
    by simp
  have k: "timeoutError node_runtime ?no (idle_state\<lparr>lastError := JStr ''boom''\<rparr>) = JStr ''boom''"
    using timeout_stack_relocated [of "idle_state\<lparr>lastError := JStr ''boom''\<rparr>" node_runtime ?no]
    by simp
  show ?thesis
    using a b c c' e n r i t k by simp
qed


end
